theory Spec2Isabelle
  imports Main "HOL-Library.AList" "HOL-Library.Word"
begin

section \<open>Values exchanged with the remote API\<close>

text \<open>
  The client of \<^verbatim>\<open>client.py\<close> shapes request payloads and reads decoded response
  bodies; both are Python values built from \<^verbatim>\<open>None\<close>, booleans, numbers, strings,
  lists and dictionaries. A Python \<^verbatim>\<open>float\<close> is an IEEE-754 double and is carried here
  as its 64 bit pattern: the client never computes with one, it only passes it on and
  tests it for truth. A dictionary is an association list in insertion order, read with
  \<^const>\<open>map_of\<close> and written with \<^const>\<open>AList.update\<close> (an existing key keeps its
  place, a new key goes to the end), as a Python \<^verbatim>\<open>dict\<close> does.
\<close>

type_synonym pyfloat = "64 word"

datatype json =
    JNull
  | JBool bool
  | JInt int
  | JFloat pyfloat
  | JStr string
  | JList "json list"
  | JObj "(string \<times> json) list"

text \<open>
  Python's truth test, used by \<^verbatim>\<open>not x\<close> and \<^verbatim>\<open>x or y\<close>: \<^verbatim>\<open>None\<close>, \<^verbatim>\<open>False\<close>,
  zero, the empty string, the empty list and the empty dictionary are false. A double
  is zero when all its bits but the sign are zero.
\<close>

fun truthy :: "json \<Rightarrow> bool" where
  "truthy JNull = False"
| "truthy (JBool b) = b"
| "truthy (JInt i) = (i \<noteq> 0)"
| "truthy (JFloat w) = (take_bit 63 w \<noteq> 0)"
| "truthy (JStr s) = (s \<noteq> [])"
| "truthy (JList xs) = (xs \<noteq> [])"
| "truthy (JObj kvs) = (kvs \<noteq> [])"

text \<open>The truth test on an \<^verbatim>\<open>Optional[str]\<close>, the type of the two session tokens.\<close>

fun truthy_str :: "string option \<Rightarrow> bool" where
  "truthy_str None = False"
| "truthy_str (Some s) = (s \<noteq> [])"

text \<open>\<^verbatim>\<open>x or y\<close>: the first operand when it is true, the second otherwise.\<close>

definition py_or :: "json \<Rightarrow> json \<Rightarrow> json" where
  "py_or x y = (if truthy x then x else y)"

text \<open>\<^verbatim>\<open>float(x)\<close> on an argument that is already a \<^verbatim>\<open>float\<close> returns it.\<close>

definition py_float :: "pyfloat \<Rightarrow> pyfloat" where
  "py_float x = x"

section \<open>Errors\<close>

text \<open>
  Every exception that can leave a method is a value. The \<^verbatim>\<open>RuntimeError\<close> messages
  are f-strings; a message is kept as the list of its parts, the interpolated values
  unrendered. \<^verbatim>\<open>RequestException\<close> stands for what \<^verbatim>\<open>requests\<close> raises when no
  response arrives.
\<close>

datatype msg_part = Text string | Fmt_int int | Fmt_json json

datatype transport_error = ConnectionError | Timeout

datatype error =
    RequestException transport_error
  | HTTPError int
  | JSONDecodeError
  | AttributeError
  | RuntimeError "msg_part list"

section \<open>Requests and responses\<close>

datatype http_method = GET | POST | DELETE

record request =
  req_method :: http_method
  req_url :: string
  req_headers :: "(string \<times> string) list"
  req_params :: "(string \<times> string) list"
  req_json :: "json option"
  req_timeout :: nat

text \<open>
  A \<^verbatim>\<open>requests.Response\<close>, as far as the client reads it: \<open>headers r k\<close> is what
  \<^verbatim>\<open>r.headers.get(k)\<close> returns, \<open>resp_text\<close> is \<^verbatim>\<open>r.text\<close>, and \<open>decoded\<close> is
  the value \<^verbatim>\<open>r.json()\<close> decodes, \<open>None\<close> when the body is not JSON.
\<close>

record response =
  status_code :: int
  headers :: "string \<rightharpoonup> string"
  resp_text :: string
  decoded :: "json option"

text \<open>\<^verbatim>\<open>r.json()\<close> raises a decoding error on a body that is not JSON.\<close>

definition resp_json :: "response \<Rightarrow> error + json" where
  "resp_json r = (case decoded r of None \<Rightarrow> Inl JSONDecodeError | Some j \<Rightarrow> Inr j)"

text \<open>
  \<^verbatim>\<open>r.raise_for_status()\<close> of the \<^verbatim>\<open>requests\<close> library raises \<^verbatim>\<open>HTTPError\<close> for a
  client error (400 to 499) or a server error (500 to 599) and returns otherwise.
\<close>

definition raise_for_status :: "response \<Rightarrow> error + unit" where
  "raise_for_status r =
     (if 400 \<le> status_code r \<and> status_code r < 600 then Inl (HTTPError (status_code r))
      else Inr ())"

text \<open>
  \<^verbatim>\<open>data.get(key)\<close>: on a dictionary the value, or \<^verbatim>\<open>None\<close> for a missing key; any
  other decoded value has no \<^verbatim>\<open>get\<close> and the call raises \<^verbatim>\<open>AttributeError\<close>.
\<close>

fun py_get :: "json \<Rightarrow> string \<Rightarrow> error + json" where
  "py_get (JObj kvs) k = (case map_of kvs k of None \<Rightarrow> Inr JNull | Some v \<Rightarrow> Inr v)"
| "py_get _ k = Inl AttributeError"

text \<open>
  The remote API is the environment: it answers a request with a response, or the
  transport fails. Each method sends one request and is given the environment's answer
  function for that moment.
\<close>

type_synonym net = "request \<Rightarrow> transport_error + response"

section \<open>The client\<close>

text \<open>
  The field \<^verbatim>\<open>identifier\<close> of the source is \<open>cfg_identifier\<close> here, the plain name
  being a keyword.
\<close>

record CapitalConfig =
  cfg_identifier :: string
  api_key :: string
  api_password :: string
  use_demo :: bool

text \<open>
  The \<open>session\<close> field stands for the \<^verbatim>\<open>requests.Session\<close>: the requests issued
  through it so far, oldest first.
\<close>

record CapitalAPI =
  config :: CapitalConfig
  base_url :: string
  session :: "request list"
  cst :: "string option"
  security_token :: "string option"

definition init :: "CapitalConfig \<Rightarrow> CapitalAPI" where
  "init cfg =
     \<lparr>config = cfg,
      base_url = (if use_demo cfg then ''https://demo-api-capital.backend-capital.com''
                  else ''https://api-capital.backend-capital.com''),
      session = [],
      cst = None,
      security_token = None\<rparr>"

subsection \<open>Helpers\<close>

text \<open>Python's \<^verbatim>\<open>_headers\<close> and \<^verbatim>\<open>_json\<close> (a name here cannot start with an underscore).\<close>

definition p_headers :: "CapitalAPI \<Rightarrow> (string \<times> string) list" where
  "p_headers self =
     (let h = [(''X-CAP-API-KEY'', api_key (config self))] in
      if truthy_str (cst self) \<and> truthy_str (security_token self) then
        (case (cst self, security_token self) of
           (Some c, Some t) \<Rightarrow> AList.update ''X-SECURITY-TOKEN'' t (AList.update ''CST'' c h)
         | _ \<Rightarrow> h)
      else h)"

definition p_json :: "response \<Rightarrow> json" where
  "p_json resp =
     (case resp_json resp of
        Inr j \<Rightarrow> j
      | Inl _ \<Rightarrow> JObj [(''text'', JStr (resp_text resp))])"

text \<open>The headers of a request with a payload: \<^verbatim>\<open>{**self._headers(), "Content-Type": ...}\<close>.\<close>

definition json_headers :: "CapitalAPI \<Rightarrow> (string \<times> string) list" where
  "json_headers self = AList.update ''Content-Type'' ''application/json'' (p_headers self)"

text \<open>A call through the session: the request is issued and recorded, the answer returned.\<close>

definition send :: "net \<Rightarrow> request \<Rightarrow> CapitalAPI \<Rightarrow> (error + response) \<times> CapitalAPI" where
  "send net rq self =
     ((case net rq of Inl e \<Rightarrow> Inl (RequestException e) | Inr r \<Rightarrow> Inr r),
      self\<lparr>session := session self @ [rq]\<rparr>)"

subsection \<open>Auth\<close>

definition login_request :: "CapitalAPI \<Rightarrow> request" where
  "login_request self =
     \<lparr>req_method = POST,
      req_url = base_url self @ ''/session'',
      req_headers = json_headers self,
      req_params = [],
      req_json = Some (JObj [(''identifier'', JStr (cfg_identifier (config self))),
                             (''password'', JStr (api_password (config self))),
                             (''encryptedPassword'', JBool False)]),
      req_timeout = 15\<rparr>"

definition login_no_tokens :: error where
  "login_no_tokens =
     RuntimeError [Text ''Login OK, aber keine Tokens (CST/X-SECURITY-TOKEN) erhalten'']"

text \<open>\<^verbatim>\<open>login\<close> returns \<^verbatim>\<open>None\<close>, here \<open>JNull\<close>.\<close>

definition login :: "net \<Rightarrow> CapitalAPI \<Rightarrow> (error + json) \<times> CapitalAPI" where
  "login net self =
     (case send net (login_request self) self of
        (Inl e, self1) \<Rightarrow> (Inl e, self1)
      | (Inr r, self1) \<Rightarrow>
          (case raise_for_status r of
             Inl e \<Rightarrow> (Inl e, self1)
           | Inr _ \<Rightarrow>
               (let self2 = self1\<lparr>cst := headers r ''CST''\<rparr>;
                    self3 = self2\<lparr>security_token := headers r ''X-SECURITY-TOKEN''\<rparr>
                in if \<not> (truthy_str (cst self3) \<and> truthy_str (security_token self3))
                   then (Inl login_no_tokens, self3)
                   else (Inr JNull, self3))))"

subsection \<open>Markets\<close>

definition search_markets_request :: "CapitalAPI \<Rightarrow> string \<Rightarrow> request" where
  "search_markets_request self search_term =
     \<lparr>req_method = GET,
      req_url = base_url self @ ''/markets'',
      req_headers = p_headers self,
      req_params = [(''searchTerm'', search_term)],
      req_json = None,
      req_timeout = 15\<rparr>"

definition search_markets :: "net \<Rightarrow> CapitalAPI \<Rightarrow> string \<Rightarrow> (error + json) \<times> CapitalAPI" where
  "search_markets net self search_term =
     (case send net (search_markets_request self search_term) self of
        (Inl e, self1) \<Rightarrow> (Inl e, self1)
      | (Inr r, self1) \<Rightarrow>
          (case raise_for_status r of
             Inl e \<Rightarrow> (Inl e, self1)
           | Inr _ \<Rightarrow>
               (let data = p_json r in
                case py_get data ''markets'' of
                  Inl e \<Rightarrow> (Inl e, self1)
                | Inr m \<Rightarrow>
                    if truthy m then (Inr m, self1)
                    else (case py_get data ''content'' of
                            Inl e \<Rightarrow> (Inl e, self1)
                          | Inr c \<Rightarrow> (Inr (py_or c (JList [])), self1)))))"

subsection \<open>Trading: positions\<close>

text \<open>
  The numeric arguments are \<^verbatim>\<open>float\<close> or \<^verbatim>\<open>Optional[float]\<close> in the source's
  signatures; the two flags default to \<^verbatim>\<open>False\<close> and the two optional levels to
  \<^verbatim>\<open>None\<close>. A call without them passes these defaults.
\<close>

definition create_position_payload ::
  "string \<Rightarrow> string \<Rightarrow> pyfloat \<Rightarrow> pyfloat option \<Rightarrow> pyfloat option \<Rightarrow> bool \<Rightarrow> bool
     \<Rightarrow> (string \<times> json) list" where
  "create_position_payload epic direction size' stop_level profit_level guaranteed_stop
       trailing_stop =
     (let p0 = [(''epic'', JStr epic), (''direction'', JStr direction), (''size'', JFloat size')];
          p1 = (case stop_level of
                  None \<Rightarrow> p0
                | Some v \<Rightarrow> AList.update ''stopLevel'' (JFloat (py_float v)) p0);
          p2 = (case profit_level of
                  None \<Rightarrow> p1
                | Some v \<Rightarrow> AList.update ''profitLevel'' (JFloat (py_float v)) p1);
          p3 = (if guaranteed_stop then AList.update ''guaranteedStop'' (JBool True) p2 else p2);
          p4 = (if trailing_stop then AList.update ''trailingStop'' (JBool True) p3 else p3)
      in p4)"

definition create_position_request ::
  "CapitalAPI \<Rightarrow> string \<Rightarrow> string \<Rightarrow> pyfloat \<Rightarrow> pyfloat option \<Rightarrow> pyfloat option \<Rightarrow> bool
     \<Rightarrow> bool \<Rightarrow> request" where
  "create_position_request self epic direction size' stop_level profit_level guaranteed_stop
       trailing_stop =
     \<lparr>req_method = POST,
      req_url = base_url self @ ''/api/v1/positions'',
      req_headers = json_headers self,
      req_params = [],
      req_json = Some (JObj (create_position_payload epic direction size' stop_level
                               profit_level guaranteed_stop trailing_stop)),
      req_timeout = 15\<rparr>"

text \<open>
  The part the two creating methods share, from \<^verbatim>\<open>data = self._json(r)\<close> on; \<open>what\<close>
  is the text that opens the message of the status failure.
\<close>

definition deal_reference_of :: "string \<Rightarrow> response \<Rightarrow> error + json" where
  "deal_reference_of what r =
     (let data = p_json r in
      if status_code r \<ge> 300 then
        Inl (RuntimeError [Text what, Fmt_int (status_code r), Text '': '', Fmt_json data])
      else
        (case py_get data ''dealReference'' of
           Inl e \<Rightarrow> Inl e
         | Inr deal_ref \<Rightarrow>
             if \<not> truthy deal_ref then
               Inl (RuntimeError [Text ''No dealReference in response: '', Fmt_json data])
             else Inr deal_ref))"

definition create_position ::
  "net \<Rightarrow> CapitalAPI \<Rightarrow> string \<Rightarrow> string \<Rightarrow> pyfloat \<Rightarrow> pyfloat option \<Rightarrow> pyfloat option
     \<Rightarrow> bool \<Rightarrow> bool \<Rightarrow> (error + json) \<times> CapitalAPI" where
  "create_position net self epic direction size' stop_level profit_level guaranteed_stop
       trailing_stop =
     (case send net (create_position_request self epic direction size' stop_level profit_level
                       guaranteed_stop trailing_stop) self of
        (Inl e, self1) \<Rightarrow> (Inl e, self1)
      | (Inr r, self1) \<Rightarrow> (deal_reference_of ''Create position failed '' r, self1))"

text \<open>
  \<^verbatim>\<open>confirm\<close>, \<^verbatim>\<open>list_positions\<close>, \<^verbatim>\<open>close_position\<close> and \<^verbatim>\<open>delete_working_order\<close>
  have one body, written four times in the source: send the request, \<^verbatim>\<open>raise_for_status\<close>,
  return \<^verbatim>\<open>self._json(r)\<close>. They differ in the request only.
\<close>

definition returning_json :: "net \<Rightarrow> request \<Rightarrow> CapitalAPI \<Rightarrow> (error + json) \<times> CapitalAPI" where
  "returning_json net rq self =
     (case send net rq self of
        (Inl e, self1) \<Rightarrow> (Inl e, self1)
      | (Inr r, self1) \<Rightarrow>
          (case raise_for_status r of
             Inl e \<Rightarrow> (Inl e, self1)
           | Inr _ \<Rightarrow> (Inr (p_json r), self1)))"

definition confirm_request :: "CapitalAPI \<Rightarrow> string \<Rightarrow> request" where
  "confirm_request self deal_reference =
     \<lparr>req_method = GET,
      req_url = base_url self @ ''/api/v1/confirms/'' @ deal_reference,
      req_headers = p_headers self,
      req_params = [],
      req_json = None,
      req_timeout = 15\<rparr>"

definition confirm :: "net \<Rightarrow> CapitalAPI \<Rightarrow> string \<Rightarrow> (error + json) \<times> CapitalAPI" where
  "confirm net self deal_reference =
     returning_json net (confirm_request self deal_reference) self"

definition list_positions_request :: "CapitalAPI \<Rightarrow> request" where
  "list_positions_request self =
     \<lparr>req_method = GET,
      req_url = base_url self @ ''/api/v1/positions'',
      req_headers = p_headers self,
      req_params = [],
      req_json = None,
      req_timeout = 15\<rparr>"

definition list_positions :: "net \<Rightarrow> CapitalAPI \<Rightarrow> (error + json) \<times> CapitalAPI" where
  "list_positions net self = returning_json net (list_positions_request self) self"

text \<open>
  \<^verbatim>\<open>close_position\<close> assigns \<^verbatim>\<open>url\<close> twice; the second assignment, the path with
  the deal id, is the one the request uses.
\<close>

definition close_position_request :: "CapitalAPI \<Rightarrow> string \<Rightarrow> request" where
  "close_position_request self deal_id =
     (let url = base_url self @ ''/api/v1/positions/otc'';
          url = base_url self @ ''/api/v1/positions/'' @ deal_id
      in \<lparr>req_method = DELETE,
          req_url = url,
          req_headers = p_headers self,
          req_params = [],
          req_json = None,
          req_timeout = 15\<rparr>)"

definition close_position :: "net \<Rightarrow> CapitalAPI \<Rightarrow> string \<Rightarrow> (error + json) \<times> CapitalAPI" where
  "close_position net self deal_id =
     returning_json net (close_position_request self deal_id) self"

subsection \<open>Trading: working orders\<close>

definition create_working_order_payload ::
  "string \<Rightarrow> string \<Rightarrow> string \<Rightarrow> pyfloat \<Rightarrow> pyfloat \<Rightarrow> string \<Rightarrow> pyfloat option
     \<Rightarrow> pyfloat option \<Rightarrow> (string \<times> json) list" where
  "create_working_order_payload epic direction order_type size' level time_in_force stop_level
       profit_level =
     (let p0 = [(''epic'', JStr epic),
                (''direction'', JStr direction),
                (''orderType'', JStr order_type),
                (''size'', JFloat size'),
                (''level'', JFloat (py_float level)),
                (''timeInForce'', JStr time_in_force)];
          p1 = (case stop_level of
                  None \<Rightarrow> p0
                | Some v \<Rightarrow> AList.update ''stopLevel'' (JFloat (py_float v)) p0);
          p2 = (case profit_level of
                  None \<Rightarrow> p1
                | Some v \<Rightarrow> AList.update ''profitLevel'' (JFloat (py_float v)) p1)
      in p2)"

definition create_working_order_request ::
  "CapitalAPI \<Rightarrow> string \<Rightarrow> string \<Rightarrow> string \<Rightarrow> pyfloat \<Rightarrow> pyfloat \<Rightarrow> string
     \<Rightarrow> pyfloat option \<Rightarrow> pyfloat option \<Rightarrow> request" where
  "create_working_order_request self epic direction order_type size' level time_in_force
       stop_level profit_level =
     \<lparr>req_method = POST,
      req_url = base_url self @ ''/api/v1/workingorders'',
      req_headers = json_headers self,
      req_params = [],
      req_json = Some (JObj (create_working_order_payload epic direction order_type size' level
                               time_in_force stop_level profit_level)),
      req_timeout = 15\<rparr>"

definition create_working_order ::
  "net \<Rightarrow> CapitalAPI \<Rightarrow> string \<Rightarrow> string \<Rightarrow> string \<Rightarrow> pyfloat \<Rightarrow> pyfloat \<Rightarrow> string
     \<Rightarrow> pyfloat option \<Rightarrow> pyfloat option \<Rightarrow> (error + json) \<times> CapitalAPI" where
  "create_working_order net self epic direction order_type size' level time_in_force stop_level
       profit_level =
     (case send net (create_working_order_request self epic direction order_type size' level
                       time_in_force stop_level profit_level) self of
        (Inl e, self1) \<Rightarrow> (Inl e, self1)
      | (Inr r, self1) \<Rightarrow> (deal_reference_of ''Create working order failed '' r, self1))"

definition delete_working_order_request :: "CapitalAPI \<Rightarrow> string \<Rightarrow> request" where
  "delete_working_order_request self deal_id =
     \<lparr>req_method = DELETE,
      req_url = base_url self @ ''/api/v1/workingorders/'' @ deal_id,
      req_headers = p_headers self,
      req_params = [],
      req_json = None,
      req_timeout = 15\<rparr>"

definition delete_working_order :: "net \<Rightarrow> CapitalAPI \<Rightarrow> string \<Rightarrow> (error + json) \<times> CapitalAPI" where
  "delete_working_order net self deal_id =
     returning_json net (delete_working_order_request self deal_id) self"

section \<open>Sequences of calls\<close>

text \<open>
  A caller uses one client for a sequence of method calls, catching what they raise. A
  call names the method and its arguments; a trace pairs each call with the answer
  function of the remote API at that moment.
\<close>

datatype call =
    Login
  | Search_markets string
  | Create_position string string pyfloat "pyfloat option" "pyfloat option" bool bool
  | Confirm string
  | List_positions
  | Close_position string
  | Create_working_order string string string pyfloat pyfloat string "pyfloat option"
      "pyfloat option"
  | Delete_working_order string

fun perform :: "net \<Rightarrow> CapitalAPI \<Rightarrow> call \<Rightarrow> (error + json) \<times> CapitalAPI" where
  "perform net self Login = login net self"
| "perform net self (Search_markets t) = search_markets net self t"
| "perform net self (Create_position e d s sl pl g t) = create_position net self e d s sl pl g t"
| "perform net self (Confirm ref) = confirm net self ref"
| "perform net self List_positions = list_positions net self"
| "perform net self (Close_position i) = close_position net self i"
| "perform net self (Create_working_order e d ot s l tif sl pl) =
     create_working_order net self e d ot s l tif sl pl"
| "perform net self (Delete_working_order i) = delete_working_order net self i"

fun run :: "CapitalAPI \<Rightarrow> (call \<times> net) list \<Rightarrow> CapitalAPI" where
  "run self [] = self"
| "run self ((k, net) # tr) = run (snd (perform net self k)) tr"

text \<open>A call has succeeded when it returned a value.\<close>

fun returned :: "(error + json) \<times> CapitalAPI \<Rightarrow> bool" where
  "returned (Inr _, _) = True"
| "returned (Inl _, _) = False"

text \<open>No \<^verbatim>\<open>login\<close> of the trace, run from the given client, has succeeded.\<close>

fun no_login_succeeded :: "CapitalAPI \<Rightarrow> (call \<times> net) list \<Rightarrow> bool" where
  "no_login_succeeded self [] = True"
| "no_login_succeeded self ((k, net) # tr) =
     (\<not> (k = Login \<and> returned (perform net self k))
      \<and> no_login_succeeded (snd (perform net self k)) tr)"

text \<open>The four fields that outlive a call and are no record of requests.\<close>

definition same_settings :: "CapitalAPI \<Rightarrow> CapitalAPI \<Rightarrow> bool" where
  "same_settings self self' =
     (config self' = config self \<and> base_url self' = base_url self
      \<and> cst self' = cst self \<and> security_token self' = security_token self)"

text \<open>The request a call builds, method by method.\<close>

fun request_of :: "CapitalAPI \<Rightarrow> call \<Rightarrow> request" where
  "request_of self Login = login_request self"
| "request_of self (Search_markets t) = search_markets_request self t"
| "request_of self (Create_position e d s sl pl g t) =
     create_position_request self e d s sl pl g t"
| "request_of self (Confirm ref) = confirm_request self ref"
| "request_of self List_positions = list_positions_request self"
| "request_of self (Close_position i) = close_position_request self i"
| "request_of self (Create_working_order e d ot s l tif sl pl) =
     create_working_order_request self e d ot s l tif sl pl"
| "request_of self (Delete_working_order i) = delete_working_order_request self i"

text \<open>
  Words of the properties below. A decoded body lacks a field when it is no dictionary or
  a dictionary without that key; a client has tokens when both stored tokens pass the
  truth test of \<^verbatim>\<open>_headers\<close>; a request omits the session headers when it carries
  neither \<^verbatim>\<open>CST\<close> nor \<^verbatim>\<open>X-SECURITY-TOKEN\<close>.
\<close>

fun lacks_field :: "json \<Rightarrow> string \<Rightarrow> bool" where
  "lacks_field (JObj kvs) k = (map_of kvs k = None)"
| "lacks_field _ k = True"

definition has_tokens :: "CapitalAPI \<Rightarrow> bool" where
  "has_tokens self = (truthy_str (cst self) \<and> truthy_str (security_token self))"

definition omits_session_headers :: "request \<Rightarrow> bool" where
  "omits_session_headers rq =
     (map_of (req_headers rq) ''CST'' = None
      \<and> map_of (req_headers rq) ''X-SECURITY-TOKEN'' = None)"

section \<open>Concrete inputs\<close>

definition cfg0 :: CapitalConfig where
  "cfg0 = \<lparr>cfg_identifier = ''user@example.org'', api_key = ''KEY'', api_password = ''pw'',
            use_demo = True\<rparr>"

text \<open>A client that has logged in before.\<close>

definition logged_in :: CapitalAPI where
  "logged_in = (init cfg0)\<lparr>cst := Some ''c1'', security_token := Some ''t1''\<rparr>"

definition ok_body :: "json \<Rightarrow> int \<Rightarrow> response" where
  "ok_body j st = \<lparr>status_code = st, headers = Map.empty, resp_text = [], decoded = Some j\<rparr>"

definition reply :: "response \<Rightarrow> net" where
  "reply r = (\<lambda>rq. Inr r)"

text \<open>Answers to \<^verbatim>\<open>login\<close>: both tokens, an empty \<^verbatim>\<open>CST\<close>, and no token at all.\<close>

definition both_tokens :: response where
  "both_tokens =
     \<lparr>status_code = 200,
      headers = [''CST'' \<mapsto> ''abc'', ''X-SECURITY-TOKEN'' \<mapsto> ''xyz''],
      resp_text = ''{}'', decoded = Some (JObj [])\<rparr>"

definition empty_cst :: response where
  "empty_cst =
     \<lparr>status_code = 200,
      headers = [''CST'' \<mapsto> [], ''X-SECURITY-TOKEN'' \<mapsto> ''xyz''],
      resp_text = ''{}'', decoded = Some (JObj [])\<rparr>"

definition no_tokens :: response where
  "no_tokens =
     \<lparr>status_code = 200, headers = Map.empty, resp_text = ''{}'', decoded = Some (JObj [])\<rparr>"

text \<open>A body that is not JSON.\<close>

definition not_json :: response where
  "not_json =
     \<lparr>status_code = 200, headers = Map.empty, resp_text = ''<html>'', decoded = None\<rparr>"

text \<open>
  A client whose first \<^verbatim>\<open>login\<close> succeeded and whose second \<^verbatim>\<open>login\<close> was answered
  with an empty \<^verbatim>\<open>CST\<close>.
\<close>

definition after_empty_cst :: CapitalAPI where
  "after_empty_cst =
     snd (login (reply empty_cst) (snd (login (reply both_tokens) (init cfg0))))"

text \<open>Two calls on a fresh client, neither a \<^verbatim>\<open>login\<close> that succeeds.\<close>

definition trace0 :: "(call \<times> net) list" where
  "trace0 = [(List_positions, reply no_tokens), (Login, reply empty_cst)]"

text \<open>Bodies for the creating and the searching methods.\<close>

definition deal_X :: json where
  "deal_X = JObj [(''dealReference'', JStr ''X'')]"

definition deal_empty :: json where
  "deal_empty = JObj [(''dealReference'', JStr [])]"

definition markets_empty_content_A :: json where
  "markets_empty_content_A = JObj [(''markets'', JList []), (''content'', JList [JStr ''A''])]"

definition markets_A :: json where
  "markets_A = JObj [(''markets'', JList [JStr ''A''])]"

definition content_A :: json where
  "content_A = JObj [(''content'', JList [JStr ''A''])]"

section \<open>Basic facts\<close>

lemma send_eq:
  "send net rq self =
     ((case net rq of Inl e \<Rightarrow> Inl (RequestException e) | Inr r \<Rightarrow> Inr r),
      self\<lparr>session := session self @ [rq]\<rparr>)"
  by (simp add: send_def)

lemma send_answer: "net rq = Inr r \<Longrightarrow> fst (send net rq self) = Inr r"
  by (simp add: send_def)

lemma raise_for_status_ok:
  "raise_for_status r = Inr () \<longleftrightarrow> \<not> (400 \<le> status_code r \<and> status_code r < 600)"
  by (simp add: raise_for_status_def)

lemma p_json_decoded: "decoded r = Some j \<Longrightarrow> p_json r = j"
  by (simp add: p_json_def resp_json_def)

lemma p_json_fallback: "decoded r = None \<Longrightarrow> p_json r = JObj [(''text'', JStr (resp_text r))]"
  by (simp add: p_json_def resp_json_def)

subsection \<open>Headers\<close>

lemma p_headers_cases:
  "p_headers self =
     (if truthy_str (cst self) \<and> truthy_str (security_token self)
      then [(''X-CAP-API-KEY'', api_key (config self)), (''CST'', the (cst self)),
            (''X-SECURITY-TOKEN'', the (security_token self))]
      else [(''X-CAP-API-KEY'', api_key (config self))])"
  by (cases "cst self"; cases "security_token self") (simp_all add: p_headers_def)

lemma p_headers_api_key: "map_of (p_headers self) ''X-CAP-API-KEY'' = Some (api_key (config self))"
  by (simp add: p_headers_cases)

lemma p_headers_cst:
  "map_of (p_headers self) ''CST'' =
     (if truthy_str (cst self) \<and> truthy_str (security_token self) then cst self else None)"
  by (cases "cst self") (simp_all add: p_headers_cases)

lemma p_headers_security_token:
  "map_of (p_headers self) ''X-SECURITY-TOKEN'' =
     (if truthy_str (cst self) \<and> truthy_str (security_token self) then security_token self
      else None)"
  by (cases "security_token self") (simp_all add: p_headers_cases)

lemma json_headers_other:
  "k \<noteq> ''Content-Type'' \<Longrightarrow> map_of (json_headers self) k = map_of (p_headers self) k"
  by (simp add: json_headers_def update_conv')

lemma request_of_headers:
  "k \<noteq> ''Content-Type'' \<Longrightarrow> map_of (req_headers (request_of self c)) k = map_of (p_headers self) k"
  by (cases c)
    (simp_all add: login_request_def search_markets_request_def create_position_request_def
      confirm_request_def list_positions_request_def close_position_request_def
      create_working_order_request_def delete_working_order_request_def json_headers_other)

subsection \<open>What a call leaves behind\<close>

lemma returning_json_session:
  "session (snd (returning_json net rq self)) = session self @ [rq]"
  by (simp add: returning_json_def send_def split: sum.splits)

lemma returning_json_settings: "same_settings self (snd (returning_json net rq self))"
  by (simp add: returning_json_def send_def same_settings_def split: sum.splits)

lemma login_session: "session (snd (login net self)) = session self @ [login_request self]"
  by (simp add: login_def send_def Let_def split: sum.splits)

lemma login_config:
  "config (snd (login net self)) = config self \<and> base_url (snd (login net self)) = base_url self"
  by (simp add: login_def send_def Let_def split: sum.splits)

lemma search_markets_session:
  "session (snd (search_markets net self t)) = session self @ [search_markets_request self t]"
  by (simp add: search_markets_def send_def Let_def split: sum.splits)

lemma search_markets_settings: "same_settings self (snd (search_markets net self t))"
  by (simp add: search_markets_def send_def Let_def same_settings_def split: sum.splits)

lemma create_position_session:
  "session (snd (create_position net self e d s sl pl g t)) =
     session self @ [create_position_request self e d s sl pl g t]"
  by (simp add: create_position_def send_def split: sum.splits)

lemma create_position_settings:
  "same_settings self (snd (create_position net self e d s sl pl g t))"
  by (simp add: create_position_def send_def same_settings_def split: sum.splits)

lemma create_working_order_session:
  "session (snd (create_working_order net self e d ot s l tif sl pl)) =
     session self @ [create_working_order_request self e d ot s l tif sl pl]"
  by (simp add: create_working_order_def send_def split: sum.splits)

lemma create_working_order_settings:
  "same_settings self (snd (create_working_order net self e d ot s l tif sl pl))"
  by (simp add: create_working_order_def send_def same_settings_def split: sum.splits)

lemma perform_session: "session (snd (perform net self c)) = session self @ [request_of self c]"
  by (cases c)
    (simp_all add: login_session search_markets_session create_position_session
      create_working_order_session returning_json_session confirm_def list_positions_def
      close_position_def delete_working_order_def)

lemma perform_settings: "c \<noteq> Login \<Longrightarrow> same_settings self (snd (perform net self c))"
  by (cases c)
    (simp_all add: search_markets_settings create_position_settings
      create_working_order_settings returning_json_settings confirm_def list_positions_def
      close_position_def delete_working_order_def)

lemma perform_config:
  "config (snd (perform net self c)) = config self
   \<and> base_url (snd (perform net self c)) = base_url self"
proof (cases "c = Login")
  case True
  then show ?thesis by (simp add: login_config)
next
  case False
  then have "same_settings self (snd (perform net self c))" by (rule perform_settings)
  then show ?thesis by (simp add: same_settings_def)
qed

lemma run_config: "config (run self tr) = config self \<and> base_url (run self tr) = base_url self"
proof (induction tr arbitrary: self)
  case Nil
  show ?case by simp
next
  case (Cons a tr)
  obtain c net where a: "a = (c, net)" by (cases a)
  show ?case using Cons.IH [of "snd (perform net self c)"] perform_config [of net self c]
    by (simp add: a)
qed

lemma login_after_status:
  assumes "net (login_request self) = Inr r" and "raise_for_status r = Inr ()"
  shows "login net self =
     (if truthy_str (headers r ''CST'') \<and> truthy_str (headers r ''X-SECURITY-TOKEN'')
      then Inr JNull else Inl login_no_tokens,
      self\<lparr>session := session self @ [login_request self],
           cst := headers r ''CST'',
           security_token := headers r ''X-SECURITY-TOKEN''\<rparr>)"
  using assms by (simp add: login_def send_def Let_def)

lemma returned_fst: "returned p \<longleftrightarrow> (\<exists>v. fst p = Inr v)"
  by (cases p; cases "fst p") auto

lemma reply_answer: "reply r rq = Inr r"
  by (simp add: reply_def)

lemma ok_body_fields:
  "status_code (ok_body j st) = st" "p_json (ok_body j st) = j" "decoded (ok_body j st) = Some j"
  by (simp_all add: ok_body_def p_json_def resp_json_def)

lemma login_cases:
  "login net self =
     (case net (login_request self) of
        Inl te \<Rightarrow> (Inl (RequestException te), self\<lparr>session := session self @ [login_request self]\<rparr>)
      | Inr r \<Rightarrow>
          (case raise_for_status r of
             Inl e \<Rightarrow> (Inl e, self\<lparr>session := session self @ [login_request self]\<rparr>)
           | Inr _ \<Rightarrow>
               (if truthy_str (headers r ''CST'') \<and> truthy_str (headers r ''X-SECURITY-TOKEN'')
                then Inr JNull else Inl login_no_tokens,
                self\<lparr>session := session self @ [login_request self],
                     cst := headers r ''CST'',
                     security_token := headers r ''X-SECURITY-TOKEN''\<rparr>)))"
  by (simp add: login_def send_def Let_def split: sum.splits)

lemma login_both_tokens:
  "login (reply both_tokens) (init cfg0) =
     (Inr JNull, (init cfg0)\<lparr>session := [login_request (init cfg0)], cst := Some ''abc'',
                            security_token := Some ''xyz''\<rparr>)"
  by (simp add: login_cases reply_answer raise_for_status_def both_tokens_def init_def)

subsection \<open>The two creating methods\<close>

lemma create_position_answer:
  "net (create_position_request self e d s sl pl g t) = Inr r \<Longrightarrow>
     fst (create_position net self e d s sl pl g t) =
       deal_reference_of ''Create position failed '' r"
  by (simp add: create_position_def send_def)

lemma create_working_order_answer:
  "net (create_working_order_request self e d ot s l tif sl pl) = Inr r \<Longrightarrow>
     fst (create_working_order net self e d ot s l tif sl pl) =
       deal_reference_of ''Create working order failed '' r"
  by (simp add: create_working_order_def send_def)

lemma deal_reference_found:
  assumes "status_code r < 300" and "p_json r = JObj kvs"
    and "map_of kvs ''dealReference'' = Some v" and "truthy v"
  shows "deal_reference_of what r = Inr v"
  using assms by (simp add: deal_reference_of_def)

lemma deal_reference_lacking:
  assumes "status_code r < 300" and "lacks_field (p_json r) ''dealReference''"
  shows "deal_reference_of what r =
     (case p_json r of
        JObj kvs \<Rightarrow> Inl (RuntimeError [Text ''No dealReference in response: '', Fmt_json (p_json r)])
      | _ \<Rightarrow> Inl AttributeError)"
  using assms by (cases "p_json r") (simp_all add: deal_reference_of_def)

lemma deal_reference_status:
  assumes "300 \<le> status_code r"
  shows "deal_reference_of what r =
     Inl (RuntimeError [Text what, Fmt_int (status_code r), Text '': '', Fmt_json (p_json r)])"
  using assms by (simp add: deal_reference_of_def)

lemma deal_reference_no_status_failure:
  assumes "status_code r < 300" and "what \<noteq> ''No dealReference in response: ''"
  shows "deal_reference_of what r \<noteq>
     Inl (RuntimeError [Text what, Fmt_int (status_code r), Text '': '', Fmt_json (p_json r)])"
  using assms by (cases "p_json r") (auto simp: deal_reference_of_def split: option.splits)

section \<open>The claims\<close>

subsection \<open>C1: login and the two token headers\<close>

text \<open>
  C1, as amended. For every \<^verbatim>\<open>login\<close> call answered with status 200: when the response
  carries both the \<^verbatim>\<open>CST\<close> and the \<^verbatim>\<open>X-SECURITY-TOKEN\<close> header and neither value is
  empty, \<^verbatim>\<open>login\<close> stores both values as the session tokens and returns normally; when
  either header is missing or empty, \<^verbatim>\<open>login\<close> fails with its
  \<^verbatim>\<open>RuntimeError\<close> that no tokens were received.
\<close>

theorem login_stores_tokens:
  assumes "net (login_request self) = Inr r" and "status_code r = 200"
  shows "(\<forall>a b. headers r ''CST'' = Some a \<and> headers r ''X-SECURITY-TOKEN'' = Some b
            \<and> a \<noteq> [] \<and> b \<noteq> [] \<longrightarrow>
            fst (login net self) = Inr JNull
            \<and> cst (snd (login net self)) = Some a
            \<and> security_token (snd (login net self)) = Some b)
       \<and> (headers r ''CST'' = None \<or> headers r ''X-SECURITY-TOKEN'' = None
            \<or> headers r ''CST'' = Some [] \<or> headers r ''X-SECURITY-TOKEN'' = Some [] \<longrightarrow>
            fst (login net self) = Inl login_no_tokens)"
proof -
  from assms(2) have ok: "raise_for_status r = Inr ()"
    by (simp add: raise_for_status_def)
  show ?thesis
    unfolding login_after_status [of net self r, OF assms(1) ok] by auto
qed

text \<open>
  The theorem at work: a fresh client answered with both tokens, and a client that had
  logged in before answered with none.
\<close>

theorem login_stores_tokens_witness:
  "reply both_tokens (login_request (init cfg0)) = Inr both_tokens
   \<and> status_code both_tokens = 200
   \<and> headers both_tokens ''CST'' = Some ''abc''
   \<and> headers both_tokens ''X-SECURITY-TOKEN'' = Some ''xyz''
   \<and> fst (login (reply both_tokens) (init cfg0)) = Inr JNull
   \<and> cst (snd (login (reply both_tokens) (init cfg0))) = Some ''abc''
   \<and> security_token (snd (login (reply both_tokens) (init cfg0))) = Some ''xyz''
   \<and> reply no_tokens (login_request logged_in) = Inr no_tokens
   \<and> status_code no_tokens = 200
   \<and> headers no_tokens ''CST'' = None
   \<and> fst (login (reply no_tokens) logged_in) = Inl login_no_tokens"
proof -
  have a: "reply both_tokens (login_request (init cfg0)) = Inr both_tokens"
    and b: "reply no_tokens (login_request logged_in) = Inr no_tokens"
    by (simp_all add: reply_def)
  have c: "status_code both_tokens = 200" and d: "status_code no_tokens = 200"
    by (simp_all add: both_tokens_def no_tokens_def)
  have e: "headers both_tokens ''CST'' = Some ''abc''"
    "headers both_tokens ''X-SECURITY-TOKEN'' = Some ''xyz''"
    "headers no_tokens ''CST'' = None"
    by (simp_all add: both_tokens_def no_tokens_def)
  show ?thesis
    using login_stores_tokens [of "reply both_tokens" "init cfg0" both_tokens, OF a c]
      login_stores_tokens [of "reply no_tokens" logged_in no_tokens, OF b d] a b c d e
    by simp
qed

text \<open>
  C1 as it is written fails where a header is present and empty: the response below has
  status 200 and carries both headers, and \<^verbatim>\<open>login\<close> raises, since Python's truth test
  rejects the empty string.
\<close>

theorem login_empty_header_counterexample:
  "status_code empty_cst = 200
   \<and> headers empty_cst ''CST'' = Some []
   \<and> headers empty_cst ''X-SECURITY-TOKEN'' = Some ''xyz''
   \<and> reply empty_cst (login_request (init cfg0)) = Inr empty_cst
   \<and> fst (login (reply empty_cst) (init cfg0)) = Inl login_no_tokens"
  by (simp add: login_def send_def reply_def empty_cst_def raise_for_status_def)

subsection \<open>C2: the deal reference of a created position or order\<close>

text \<open>
  C2, as amended. For every \<^verbatim>\<open>create_position\<close> call: when the response has status
  200 and its body is a dictionary whose \<^verbatim>\<open>dealReference\<close> field holds a non-empty
  string, the call returns that string; when the status is 200 and the body lacks the
  field, the call fails; when the status is 400, the call fails with the
  \<^verbatim>\<open>RuntimeError\<close> whose message holds the status code 400 and the parsed body. The
  same holds for \<^verbatim>\<open>create_working_order\<close>.
\<close>

theorem create_contract:
  assumes "net (create_position_request self e d s sl pl g t) = Inr r"
    and "net' (create_working_order_request self e d ot s l tif sl pl) = Inr r"
  shows "(\<forall>kvs x. status_code r = 200 \<and> p_json r = JObj kvs
            \<and> map_of kvs ''dealReference'' = Some (JStr x) \<and> x \<noteq> [] \<longrightarrow>
            fst (create_position net self e d s sl pl g t) = Inr (JStr x)
            \<and> fst (create_working_order net' self e d ot s l tif sl pl) = Inr (JStr x))
       \<and> (status_code r = 200 \<and> lacks_field (p_json r) ''dealReference'' \<longrightarrow>
            \<not> returned (create_position net self e d s sl pl g t)
            \<and> \<not> returned (create_working_order net' self e d ot s l tif sl pl))
       \<and> (status_code r = 400 \<longrightarrow>
            fst (create_position net self e d s sl pl g t) =
              Inl (RuntimeError [Text ''Create position failed '', Fmt_int 400, Text '': '',
                                 Fmt_json (p_json r)])
            \<and> fst (create_working_order net' self e d ot s l tif sl pl) =
              Inl (RuntimeError [Text ''Create working order failed '', Fmt_int 400, Text '': '',
                                 Fmt_json (p_json r)]))"
proof -
  note cp = create_position_answer [of net self e d s sl pl g t r, OF assms(1)]
  note cw = create_working_order_answer [of net' self e d ot s l tif sl pl r, OF assms(2)]
  have found: "fst (create_position net self e d s sl pl g t) = Inr (JStr x)
      \<and> fst (create_working_order net' self e d ot s l tif sl pl) = Inr (JStr x)"
    if "status_code r = 200" "p_json r = JObj kvs"
      "map_of kvs ''dealReference'' = Some (JStr x)" "x \<noteq> []" for kvs x
    using that by (simp add: cp cw deal_reference_found [of r kvs "JStr x"])
  have lacking: "\<not> returned (create_position net self e d s sl pl g t)
      \<and> \<not> returned (create_working_order net' self e d ot s l tif sl pl)"
    if "status_code r = 200" "lacks_field (p_json r) ''dealReference''"
  proof -
    have "\<exists>err. deal_reference_of what r = Inl err" for what
      using that by (cases "p_json r") (simp_all add: deal_reference_lacking)
    then obtain e1 e2 where "fst (create_position net self e d s sl pl g t) = Inl e1"
      "fst (create_working_order net' self e d ot s l tif sl pl) = Inl e2"
      unfolding cp cw by blast
    then show ?thesis
      by (cases "create_position net self e d s sl pl g t";
          cases "create_working_order net' self e d ot s l tif sl pl") simp
  qed
  have status: "fst (create_position net self e d s sl pl g t) =
        Inl (RuntimeError [Text ''Create position failed '', Fmt_int 400, Text '': '',
                           Fmt_json (p_json r)])
      \<and> fst (create_working_order net' self e d ot s l tif sl pl) =
        Inl (RuntimeError [Text ''Create working order failed '', Fmt_int 400, Text '': '',
                           Fmt_json (p_json r)])"
    if "status_code r = 400"
    using that by (simp add: cp cw deal_reference_status)
  from found lacking status show ?thesis by blast
qed

text \<open>
  The theorem at three answers: a deal reference \<^verbatim>\<open>"X"\<close> with status 200, an empty
  dictionary with status 200, and status 400.
\<close>

theorem create_contract_witness:
  "status_code (ok_body deal_X 200) = 200
   \<and> p_json (ok_body deal_X 200) = JObj [(''dealReference'', JStr ''X'')]
   \<and> fst (create_position (reply (ok_body deal_X 200)) logged_in ''EPIC'' ''BUY'' 1 None None
        False False) = Inr (JStr ''X'')
   \<and> fst (create_working_order (reply (ok_body deal_X 200)) logged_in ''EPIC'' ''BUY'' ''LIMIT''
        1 2 ''GOOD_TILL_CANCELLED'' None None) = Inr (JStr ''X'')
   \<and> lacks_field (p_json (ok_body (JObj []) 200)) ''dealReference''
   \<and> \<not> returned (create_position (reply (ok_body (JObj []) 200)) logged_in ''EPIC'' ''BUY'' 1
        None None False False)
   \<and> \<not> returned (create_working_order (reply (ok_body (JObj []) 200)) logged_in ''EPIC''
        ''BUY'' ''LIMIT'' 1 2 ''GOOD_TILL_CANCELLED'' None None)
   \<and> status_code (ok_body deal_X 400) = 400
   \<and> fst (create_position (reply (ok_body deal_X 400)) logged_in ''EPIC'' ''BUY'' 1 None None
        False False) =
       Inl (RuntimeError [Text ''Create position failed '', Fmt_int 400, Text '': '',
                          Fmt_json deal_X])
   \<and> fst (create_working_order (reply (ok_body deal_X 400)) logged_in ''EPIC'' ''BUY'' ''LIMIT''
        1 2 ''GOOD_TILL_CANCELLED'' None None) =
       Inl (RuntimeError [Text ''Create working order failed '', Fmt_int 400, Text '': '',
                          Fmt_json deal_X])"
  using
    create_contract [of "reply (ok_body deal_X 200)" logged_in "''EPIC''" "''BUY''" 1 None None
      False False "ok_body deal_X 200" "reply (ok_body deal_X 200)" "''LIMIT''" 2
      "''GOOD_TILL_CANCELLED''"]
    create_contract [of "reply (ok_body (JObj []) 200)" logged_in "''EPIC''" "''BUY''" 1 None
      None False False "ok_body (JObj []) 200" "reply (ok_body (JObj []) 200)" "''LIMIT''" 2
      "''GOOD_TILL_CANCELLED''"]
    create_contract [of "reply (ok_body deal_X 400)" logged_in "''EPIC''" "''BUY''" 1 None None
      False False "ok_body deal_X 400" "reply (ok_body deal_X 400)" "''LIMIT''" 2
      "''GOOD_TILL_CANCELLED''"]
  by (simp add: reply_answer ok_body_fields deal_X_def)

text \<open>
  C2 as it is written fails for the empty string: \<^verbatim>\<open>if not deal_ref\<close> rejects it, so a
  200 body \<^verbatim>\<open>{"dealReference": ""}\<close> makes the call raise instead of returning
  \<^verbatim>\<open>""\<close>.
\<close>

theorem create_position_empty_reference_counterexample:
  "status_code (ok_body deal_empty 200) = 200
   \<and> p_json (ok_body deal_empty 200) = JObj [(''dealReference'', JStr [])]
   \<and> fst (create_position (reply (ok_body deal_empty 200)) logged_in ''EPIC'' ''BUY'' 1 None
        None False False) =
       Inl (RuntimeError [Text ''No dealReference in response: '', Fmt_json deal_empty])"
  by (simp add: create_position_def send_def reply_answer deal_reference_of_def ok_body_fields
      deal_empty_def)

subsection \<open>C3: the list that search_markets returns\<close>

lemma search_markets_answer:
  assumes "net (search_markets_request self t) = Inr r"
  shows "fst (search_markets net self t) =
     (case raise_for_status r of
        Inl e \<Rightarrow> Inl e
      | Inr _ \<Rightarrow>
          (case py_get (p_json r) ''markets'' of
             Inl e \<Rightarrow> Inl e
           | Inr m \<Rightarrow>
               if truthy m then Inr m
               else (case py_get (p_json r) ''content'' of
                       Inl e \<Rightarrow> Inl e
                     | Inr c \<Rightarrow> Inr (py_or c (JList [])))))"
  using assms by (simp add: search_markets_def send_def Let_def split: sum.splits)

lemma search_markets_returned_status:
  assumes "net (search_markets_request self t) = Inr r" and "returned (search_markets net self t)"
  shows "raise_for_status r = Inr ()"
  using assms(2) unfolding returned_fst search_markets_answer [of net self t r, OF assms(1)]
  by (cases "raise_for_status r") auto

text \<open>
  C3, as amended. For every \<^verbatim>\<open>search_markets\<close> call that returns: when the body holds
  a list under \<^verbatim>\<open>markets\<close> and that list is non-empty or there is no \<^verbatim>\<open>content\<close>
  key, the call returns that list; when \<^verbatim>\<open>markets\<close> is absent or holds the empty list
  and \<^verbatim>\<open>content\<close> holds a list, the call returns the list under \<^verbatim>\<open>content\<close>; when
  neither key is present, the call returns the empty list.
\<close>

theorem search_markets_result:
  assumes "net (search_markets_request self t) = Inr r" and "returned (search_markets net self t)"
  shows "(\<forall>kvs ms. p_json r = JObj kvs \<and> map_of kvs ''markets'' = Some (JList ms)
            \<and> (ms \<noteq> [] \<or> map_of kvs ''content'' = None) \<longrightarrow>
            fst (search_markets net self t) = Inr (JList ms))
       \<and> (\<forall>kvs cs. p_json r = JObj kvs
            \<and> (map_of kvs ''markets'' = None \<or> map_of kvs ''markets'' = Some (JList []))
            \<and> map_of kvs ''content'' = Some (JList cs) \<longrightarrow>
            fst (search_markets net self t) = Inr (JList cs))
       \<and> (lacks_field (p_json r) ''markets'' \<and> lacks_field (p_json r) ''content'' \<longrightarrow>
            fst (search_markets net self t) = Inr (JList []))"
proof -
  note ok = search_markets_returned_status [of net self t r, OF assms]
  note ans = search_markets_answer [of net self t r, OF assms(1)]
  have first: "fst (search_markets net self t) = Inr (JList ms)"
    if "p_json r = JObj kvs" "map_of kvs ''markets'' = Some (JList ms)"
      "ms \<noteq> [] \<or> map_of kvs ''content'' = None" for kvs ms
    using that by (auto simp: ans ok py_or_def)
  have second: "fst (search_markets net self t) = Inr (JList cs)"
    if "p_json r = JObj kvs"
      "map_of kvs ''markets'' = None \<or> map_of kvs ''markets'' = Some (JList [])"
      "map_of kvs ''content'' = Some (JList cs)" for kvs cs
    using that by (auto simp: ans ok py_or_def)
  have third: "fst (search_markets net self t) = Inr (JList [])"
    if "lacks_field (p_json r) ''markets''" "lacks_field (p_json r) ''content''"
  proof (cases "p_json r")
    case (JObj kvs)
    with that show ?thesis by (simp add: ans ok py_or_def)
  qed (use assms(2) in \<open>simp_all add: returned_fst ans ok\<close>)
  from first second third show ?thesis by blast
qed

text \<open>
  The theorem at three bodies: a list under \<^verbatim>\<open>markets\<close>, a list under
  \<^verbatim>\<open>content\<close>, and an empty dictionary.
\<close>

theorem search_markets_result_witness:
  "returned (search_markets (reply (ok_body markets_A 200)) logged_in ''gold'')
   \<and> p_json (ok_body markets_A 200) = JObj [(''markets'', JList [JStr ''A''])]
   \<and> fst (search_markets (reply (ok_body markets_A 200)) logged_in ''gold'') =
       Inr (JList [JStr ''A''])
   \<and> returned (search_markets (reply (ok_body content_A 200)) logged_in ''gold'')
   \<and> p_json (ok_body content_A 200) = JObj [(''content'', JList [JStr ''A''])]
   \<and> fst (search_markets (reply (ok_body content_A 200)) logged_in ''gold'') =
       Inr (JList [JStr ''A''])
   \<and> returned (search_markets (reply (ok_body (JObj []) 200)) logged_in ''gold'')
   \<and> lacks_field (p_json (ok_body (JObj []) 200)) ''markets''
   \<and> lacks_field (p_json (ok_body (JObj []) 200)) ''content''
   \<and> fst (search_markets (reply (ok_body (JObj []) 200)) logged_in ''gold'') = Inr (JList [])"
proof -
  have ret: "returned (search_markets (reply (ok_body j 200)) logged_in ''gold'')"
    if "j = markets_A \<or> j = content_A \<or> j = JObj []" for j
    using that
    by (auto simp: returned_fst search_markets_answer [of _ _ _ "ok_body j 200"] reply_answer
        raise_for_status_def ok_body_fields markets_A_def content_A_def py_or_def)
  show ?thesis
    using
      search_markets_result [of "reply (ok_body markets_A 200)" logged_in "''gold''"
        "ok_body markets_A 200", OF reply_answer ret]
      search_markets_result [of "reply (ok_body content_A 200)" logged_in "''gold''"
        "ok_body content_A 200", OF reply_answer ret]
      search_markets_result [of "reply (ok_body (JObj []) 200)" logged_in "''gold''"
        "ok_body (JObj []) 200", OF reply_answer ret]
      ret
    by (simp add: ok_body_fields markets_A_def content_A_def)
qed

text \<open>
  C3 as it is written fails where \<^verbatim>\<open>markets\<close> holds the empty list: \<^verbatim>\<open>or\<close> passes
  over it, and the call returns the list under \<^verbatim>\<open>content\<close>, not the list under
  \<^verbatim>\<open>markets\<close>.
\<close>

theorem search_markets_empty_markets_counterexample:
  "p_json (ok_body markets_empty_content_A 200) =
     JObj [(''markets'', JList []), (''content'', JList [JStr ''A''])]
   \<and> returned (search_markets (reply (ok_body markets_empty_content_A 200)) logged_in ''gold'')
   \<and> fst (search_markets (reply (ok_body markets_empty_content_A 200)) logged_in ''gold'') =
       Inr (JList [JStr ''A''])"
  by (simp add: returned_fst
      search_markets_answer [of _ _ _ "ok_body markets_empty_content_A 200"] reply_answer
      raise_for_status_def ok_body_fields markets_empty_content_A_def py_or_def)

subsection \<open>C4: the payload without optional fields\<close>

text \<open>
  C4. A \<^verbatim>\<open>create_position\<close> call made without \<^verbatim>\<open>stop_level\<close>, \<^verbatim>\<open>profit_level\<close>,
  \<^verbatim>\<open>guaranteed_stop\<close> and \<^verbatim>\<open>trailing_stop\<close> (their defaults are \<^verbatim>\<open>None\<close>,
  \<^verbatim>\<open>None\<close>, \<^verbatim>\<open>False\<close>, \<^verbatim>\<open>False\<close>) sends one request, and the body of that request
  has exactly the three fields \<^verbatim>\<open>epic\<close>, \<^verbatim>\<open>direction\<close> and \<^verbatim>\<open>size\<close>.
\<close>

theorem create_position_minimal_payload:
  "session (snd (create_position net self epic direction size' None None False False)) =
     session self @ [create_position_request self epic direction size' None None False False]
   \<and> req_json (create_position_request self epic direction size' None None False False) =
     Some (JObj [(''epic'', JStr epic), (''direction'', JStr direction), (''size'', JFloat size')])"
  by (simp add: create_position_session create_position_request_def create_position_payload_def)

subsection \<open>C5: the status failure of the creating methods\<close>

text \<open>
  C5, as amended. For every \<^verbatim>\<open>create_position\<close> and \<^verbatim>\<open>create_working_order\<close> call
  that is answered, the call fails with the \<^verbatim>\<open>RuntimeError\<close> carrying the status code
  and the parsed body if and only if the status is 300 or more; every answer with a
  status below 300, the 2xx range included, whose body is a dictionary with a true
  \<^verbatim>\<open>dealReference\<close> makes the call return that value.
\<close>

theorem create_status_failure:
  assumes "net (create_position_request self e d s sl pl g t) = Inr r"
    and "net' (create_working_order_request self e d ot s l tif sl pl) = Inr r"
  shows "(fst (create_position net self e d s sl pl g t) =
            Inl (RuntimeError [Text ''Create position failed '', Fmt_int (status_code r),
                               Text '': '', Fmt_json (p_json r)])
          \<longleftrightarrow> 300 \<le> status_code r)
       \<and> (fst (create_working_order net' self e d ot s l tif sl pl) =
            Inl (RuntimeError [Text ''Create working order failed '', Fmt_int (status_code r),
                               Text '': '', Fmt_json (p_json r)])
          \<longleftrightarrow> 300 \<le> status_code r)
       \<and> (\<forall>kvs v. status_code r < 300 \<and> p_json r = JObj kvs
            \<and> map_of kvs ''dealReference'' = Some v \<and> truthy v \<longrightarrow>
            fst (create_position net self e d s sl pl g t) = Inr v
            \<and> fst (create_working_order net' self e d ot s l tif sl pl) = Inr v)"
proof -
  note cp = create_position_answer [of net self e d s sl pl g t r, OF assms(1)]
  note cw = create_working_order_answer [of net' self e d ot s l tif sl pl r, OF assms(2)]
  have iff: "deal_reference_of what r =
        Inl (RuntimeError [Text what, Fmt_int (status_code r), Text '': '', Fmt_json (p_json r)])
      \<longleftrightarrow> 300 \<le> status_code r"
    if "what \<noteq> ''No dealReference in response: ''" for what
  proof (cases "300 \<le> status_code r")
    case True
    then show ?thesis by (simp add: deal_reference_status)
  next
    case False
    then have "status_code r < 300" by simp
    from deal_reference_no_status_failure [OF this that] False show ?thesis by simp
  qed
  have found: "fst (create_position net self e d s sl pl g t) = Inr v
      \<and> fst (create_working_order net' self e d ot s l tif sl pl) = Inr v"
    if "status_code r < 300" "p_json r = JObj kvs" "map_of kvs ''dealReference'' = Some v"
      "truthy v" for kvs v
    using that by (simp add: cp cw deal_reference_found [of r kvs v])
  have "fst (create_position net self e d s sl pl g t) =
            Inl (RuntimeError [Text ''Create position failed '', Fmt_int (status_code r),
                               Text '': '', Fmt_json (p_json r)])
          \<longleftrightarrow> 300 \<le> status_code r"
    unfolding cp by (rule iff) simp
  moreover have "fst (create_working_order net' self e d ot s l tif sl pl) =
            Inl (RuntimeError [Text ''Create working order failed '', Fmt_int (status_code r),
                               Text '': '', Fmt_json (p_json r)])
          \<longleftrightarrow> 300 \<le> status_code r"
    unfolding cw by (rule iff) simp
  ultimately show ?thesis using found by blast
qed

text \<open>
  The theorem at status 204 with a deal reference and at status 302.
\<close>

theorem create_status_failure_witness:
  "status_code (ok_body deal_X 204) < 300
   \<and> p_json (ok_body deal_X 204) = JObj [(''dealReference'', JStr ''X'')]
   \<and> truthy (JStr ''X'')
   \<and> fst (create_position (reply (ok_body deal_X 204)) logged_in ''EPIC'' ''BUY'' 1 None None
        False False) = Inr (JStr ''X'')
   \<and> fst (create_working_order (reply (ok_body deal_X 204)) logged_in ''EPIC'' ''BUY'' ''LIMIT''
        1 2 ''GOOD_TILL_CANCELLED'' None None) = Inr (JStr ''X'')
   \<and> 300 \<le> status_code (ok_body deal_X 302)
   \<and> fst (create_position (reply (ok_body deal_X 302)) logged_in ''EPIC'' ''BUY'' 1 None None
        False False) =
       Inl (RuntimeError [Text ''Create position failed '', Fmt_int 302, Text '': '',
                          Fmt_json deal_X])"
  using
    create_status_failure [of "reply (ok_body deal_X 204)" logged_in "''EPIC''" "''BUY''" 1 None
      None False False "ok_body deal_X 204" "reply (ok_body deal_X 204)" "''LIMIT''" 2
      "''GOOD_TILL_CANCELLED''"]
    create_status_failure [of "reply (ok_body deal_X 302)" logged_in "''EPIC''" "''BUY''" 1 None
      None False False "ok_body deal_X 302" "reply (ok_body deal_X 302)" "''LIMIT''" 2
      "''GOOD_TILL_CANCELLED''"]
  by (simp add: reply_answer ok_body_fields deal_X_def)

text \<open>
  C5 as it is written fails below 200: the guard is \<^verbatim>\<open>r.status_code >= 300\<close>, so an
  answer with status 102, which is outside the 2xx range, does not fail.
\<close>

theorem create_below_200_counterexample:
  "status_code (ok_body deal_X 102) = 102
   \<and> fst (create_position (reply (ok_body deal_X 102)) logged_in ''EPIC'' ''BUY'' 1 None None
        False False) = Inr (JStr ''X'')
   \<and> fst (create_working_order (reply (ok_body deal_X 102)) logged_in ''EPIC'' ''BUY'' ''LIMIT''
        1 2 ''GOOD_TILL_CANCELLED'' None None) = Inr (JStr ''X'')"
  by (simp add: create_position_def create_working_order_def send_def reply_answer
      deal_reference_of_def ok_body_fields deal_X_def)

subsection \<open>C6: bodies that are not JSON\<close>

lemma py_get_error: "py_get j k = Inl err \<Longrightarrow> err = AttributeError"
  by (cases j) (auto split: option.splits)

lemma raise_for_status_error: "raise_for_status r = Inl err \<Longrightarrow> err = HTTPError (status_code r)"
  by (auto simp: raise_for_status_def split: if_splits)

lemma send_error: "fst (send net rq self) = Inl err \<Longrightarrow> \<exists>te. err = RequestException te"
  by (auto simp: send_def split: sum.splits)

lemma deal_reference_no_decode_error: "deal_reference_of what r \<noteq> Inl JSONDecodeError"
  by (auto simp: deal_reference_of_def Let_def split: sum.splits dest: py_get_error)

lemma returning_json_no_decode_error: "fst (returning_json net rq self) \<noteq> Inl JSONDecodeError"
  by (auto simp: returning_json_def send_def split: sum.splits prod.splits
      dest: raise_for_status_error)

lemma login_no_decode_error: "fst (login net self) \<noteq> Inl JSONDecodeError"
  by (auto simp: login_def send_def Let_def login_no_tokens_def split: sum.splits prod.splits
      dest: raise_for_status_error)

lemma search_markets_no_decode_error: "fst (search_markets net self t) \<noteq> Inl JSONDecodeError"
  by (auto simp: search_markets_def send_def Let_def split: sum.splits prod.splits
      dest: raise_for_status_error py_get_error)

lemma create_position_no_decode_error:
  "fst (create_position net self e d s sl pl g t) \<noteq> Inl JSONDecodeError"
  by (auto simp: create_position_def send_def deal_reference_no_decode_error
      split: sum.splits prod.splits)

lemma create_working_order_no_decode_error:
  "fst (create_working_order net self e d ot s l tif sl pl) \<noteq> Inl JSONDecodeError"
  by (auto simp: create_working_order_def send_def deal_reference_no_decode_error
      split: sum.splits prod.splits)

lemma returning_json_fallback:
  assumes "net rq = Inr r" and "raise_for_status r = Inr ()" and "decoded r = None"
  shows "fst (returning_json net rq self) = Inr (JObj [(''text'', JStr (resp_text r))])"
  using assms by (simp add: returning_json_def send_def p_json_fallback)

lemma deal_reference_fallback:
  assumes "decoded r = None"
  shows "deal_reference_of what r =
     Inl (RuntimeError
       (if 300 \<le> status_code r
        then [Text what, Fmt_int (status_code r), Text '': '',
              Fmt_json (JObj [(''text'', JStr (resp_text r))])]
        else [Text ''No dealReference in response: '',
              Fmt_json (JObj [(''text'', JStr (resp_text r))])]))"
  using assms by (simp add: deal_reference_of_def p_json_fallback)

lemma search_markets_fallback:
  assumes "net (search_markets_request self t) = Inr r" and "raise_for_status r = Inr ()"
    and "decoded r = None"
  shows "fst (search_markets net self t) = Inr (JList [])"
  using assms(2,3)
  by (simp add: search_markets_answer [of net self t r, OF assms(1)] p_json_fallback py_or_def)

lemma login_ignores_body:
  assumes "net (login_request self) = Inr r"
    and "net' (login_request self) = Inr (r\<lparr>resp_text := body, decoded := dec\<rparr>)"
  shows "login net' self = login net self"
  using assms by (simp add: login_cases raise_for_status_def)

text \<open>
  C6. When the body of a response is not decodable as JSON, \<^verbatim>\<open>_json\<close> yields the
  dictionary with the single field \<^verbatim>\<open>text\<close> holding the raw text, and no call of any
  of the eight methods ends in a decoding error. Every method that decodes the body works
  on that dictionary: \<^verbatim>\<open>confirm\<close>, \<^verbatim>\<open>list_positions\<close>, \<^verbatim>\<open>close_position\<close> and
  \<^verbatim>\<open>delete_working_order\<close> return it when the status passes \<^verbatim>\<open>raise_for_status\<close>;
  \<^verbatim>\<open>search_markets\<close> finds neither key in it and returns the empty list;
  \<^verbatim>\<open>create_position\<close> and \<^verbatim>\<open>create_working_order\<close> raise the \<^verbatim>\<open>RuntimeError\<close> that
  carries it, with the status code when the status is 300 or more and as the body without
  a deal reference otherwise. \<^verbatim>\<open>login\<close> never reads the body: its outcome is the same
  whatever the text and whether or not it decodes.
\<close>

theorem no_decoding_error:
  "(decoded r = None \<longrightarrow> p_json r = JObj [(''text'', JStr (resp_text r))])
   \<and> fst (perform net self c) \<noteq> Inl JSONDecodeError
   \<and> (decoded r = None \<and> raise_for_status r = Inr () \<longrightarrow>
        (net (confirm_request self ref) = Inr r \<longrightarrow>
           fst (confirm net self ref) = Inr (JObj [(''text'', JStr (resp_text r))]))
        \<and> (net (list_positions_request self) = Inr r \<longrightarrow>
           fst (list_positions net self) = Inr (JObj [(''text'', JStr (resp_text r))]))
        \<and> (net (close_position_request self i) = Inr r \<longrightarrow>
           fst (close_position net self i) = Inr (JObj [(''text'', JStr (resp_text r))]))
        \<and> (net (delete_working_order_request self i) = Inr r \<longrightarrow>
           fst (delete_working_order net self i) = Inr (JObj [(''text'', JStr (resp_text r))]))
        \<and> (net (search_markets_request self t) = Inr r \<longrightarrow>
           fst (search_markets net self t) = Inr (JList [])))
   \<and> (decoded r = None \<longrightarrow>
        (net (create_position_request self e d s sl pl g ts) = Inr r \<longrightarrow>
           fst (create_position net self e d s sl pl g ts) =
             Inl (RuntimeError
               (if 300 \<le> status_code r
                then [Text ''Create position failed '', Fmt_int (status_code r), Text '': '',
                      Fmt_json (JObj [(''text'', JStr (resp_text r))])]
                else [Text ''No dealReference in response: '',
                      Fmt_json (JObj [(''text'', JStr (resp_text r))])])))
        \<and> (net (create_working_order_request self e d ot s l tif sl pl) = Inr r \<longrightarrow>
           fst (create_working_order net self e d ot s l tif sl pl) =
             Inl (RuntimeError
               (if 300 \<le> status_code r
                then [Text ''Create working order failed '', Fmt_int (status_code r),
                      Text '': '', Fmt_json (JObj [(''text'', JStr (resp_text r))])]
                else [Text ''No dealReference in response: '',
                      Fmt_json (JObj [(''text'', JStr (resp_text r))])]))))
   \<and> (net (login_request self) = Inr r
        \<and> other (login_request self) = Inr (r\<lparr>resp_text := body, decoded := dec\<rparr>) \<longrightarrow>
        login other self = login net self)"
proof -
  have no_error: "fst (perform net self c) \<noteq> Inl JSONDecodeError"
    by (cases c)
      (simp_all add: login_no_decode_error search_markets_no_decode_error
        create_position_no_decode_error create_working_order_no_decode_error
        returning_json_no_decode_error confirm_def list_positions_def close_position_def
        delete_working_order_def)
  have passing: "fst (returning_json net rq self) = Inr (JObj [(''text'', JStr (resp_text r))])"
    if "decoded r = None" "raise_for_status r = Inr ()" "net rq = Inr r" for rq
    using that by (simp add: returning_json_fallback)
  have search: "fst (search_markets net self t) = Inr (JList [])"
    if "decoded r = None" "raise_for_status r = Inr ()"
      "net (search_markets_request self t) = Inr r"
    using that by (simp add: search_markets_fallback [of net self t r])
  have position: "fst (create_position net self e d s sl pl g ts) =
      deal_reference_of ''Create position failed '' r"
    if "net (create_position_request self e d s sl pl g ts) = Inr r"
    using that by (rule create_position_answer)
  have order: "fst (create_working_order net self e d ot s l tif sl pl) =
      deal_reference_of ''Create working order failed '' r"
    if "net (create_working_order_request self e d ot s l tif sl pl) = Inr r"
    using that by (rule create_working_order_answer)
  have login: "login other self = login net self"
    if "net (login_request self) = Inr r"
      "other (login_request self) = Inr (r\<lparr>resp_text := body, decoded := dec\<rparr>)"
    using that by (rule login_ignores_body)
  show ?thesis
    using no_error passing search login
    by (simp add: p_json_fallback position order deal_reference_fallback confirm_def
        list_positions_def close_position_def delete_working_order_def)
qed

text \<open>
  The theorem at an HTML body with status 200, at the same body with status 502, and at a
  \<^verbatim>\<open>login\<close> answered with both tokens and an HTML body.
\<close>

theorem no_decoding_error_witness:
  "decoded not_json = None
   \<and> raise_for_status not_json = Inr ()
   \<and> p_json not_json = JObj [(''text'', JStr ''<html>'')]
   \<and> fst (perform (reply not_json) logged_in (Search_markets ''gold'')) \<noteq> Inl JSONDecodeError
   \<and> fst (confirm (reply not_json) logged_in ''ref'') = Inr (JObj [(''text'', JStr ''<html>'')])
   \<and> fst (list_positions (reply not_json) logged_in) = Inr (JObj [(''text'', JStr ''<html>'')])
   \<and> fst (close_position (reply not_json) logged_in ''id'') =
       Inr (JObj [(''text'', JStr ''<html>'')])
   \<and> fst (delete_working_order (reply not_json) logged_in ''id'') =
       Inr (JObj [(''text'', JStr ''<html>'')])
   \<and> fst (search_markets (reply not_json) logged_in ''gold'') = Inr (JList [])
   \<and> fst (create_position (reply not_json) logged_in ''EPIC'' ''BUY'' 1 None None False False) =
       Inl (RuntimeError [Text ''No dealReference in response: '',
                          Fmt_json (JObj [(''text'', JStr ''<html>'')])])
   \<and> fst (create_working_order (reply not_json) logged_in ''EPIC'' ''BUY'' ''LIMIT'' 1 2
        ''GOOD_TILL_CANCELLED'' None None) =
       Inl (RuntimeError [Text ''No dealReference in response: '',
                          Fmt_json (JObj [(''text'', JStr ''<html>'')])])
   \<and> decoded (not_json\<lparr>status_code := 502\<rparr>) = None
   \<and> fst (create_position (reply (not_json\<lparr>status_code := 502\<rparr>)) logged_in ''EPIC'' ''BUY'' 1
        None None False False) =
       Inl (RuntimeError [Text ''Create position failed '', Fmt_int 502, Text '': '',
                          Fmt_json (JObj [(''text'', JStr ''<html>'')])])
   \<and> fst (create_working_order (reply (not_json\<lparr>status_code := 502\<rparr>)) logged_in ''EPIC''
        ''BUY'' ''LIMIT'' 1 2 ''GOOD_TILL_CANCELLED'' None None) =
       Inl (RuntimeError [Text ''Create working order failed '', Fmt_int 502, Text '': '',
                          Fmt_json (JObj [(''text'', JStr ''<html>'')])])
   \<and> login (reply (both_tokens\<lparr>resp_text := ''<html>'', decoded := None\<rparr>)) logged_in =
       login (reply both_tokens) logged_in"
proof -
  have a: "decoded not_json = None" "raise_for_status not_json = Inr ()"
    "resp_text not_json = ''<html>''" "status_code not_json = 200"
    by (simp_all add: not_json_def raise_for_status_def)
  show ?thesis
    using
      no_decoding_error [where r = not_json and net = "reply not_json" and self = logged_in
        and c = "Search_markets ''gold''" and ref = "''ref''" and i = "''id''"
        and t = "''gold''" and e = "''EPIC''" and d = "''BUY''" and s = 1 and sl = None
        and pl = None and g = False and ts = False and ot = "''LIMIT''" and l = 2
        and tif = "''GOOD_TILL_CANCELLED''"]
      no_decoding_error [where r = "not_json\<lparr>status_code := 502\<rparr>"
        and net = "reply (not_json\<lparr>status_code := 502\<rparr>)" and self = logged_in
        and e = "''EPIC''" and d = "''BUY''" and s = 1 and sl = None and pl = None
        and g = False and ts = False and ot = "''LIMIT''" and l = 2
        and tif = "''GOOD_TILL_CANCELLED''"]
      no_decoding_error [where r = both_tokens and net = "reply both_tokens"
        and self = logged_in
        and other = "reply (both_tokens\<lparr>resp_text := ''<html>'', decoded := None\<rparr>)"
        and body = "''<html>''" and dec = None]
      a
    by (simp add: reply_answer)
qed

subsection \<open>C7: the headers of every request\<close>

lemma request_of_omits: "\<not> has_tokens self \<Longrightarrow> omits_session_headers (request_of self c)"
proof -
  assume no: "\<not> has_tokens self"
  have "map_of (req_headers (request_of self c)) ''CST'' = map_of (p_headers self) ''CST''"
    and "map_of (req_headers (request_of self c)) ''X-SECURITY-TOKEN'' =
      map_of (p_headers self) ''X-SECURITY-TOKEN''"
    by (simp_all add: request_of_headers)
  moreover from no have "map_of (p_headers self) ''CST'' = None"
    and "map_of (p_headers self) ''X-SECURITY-TOKEN'' = None"
    unfolding has_tokens_def p_headers_cst p_headers_security_token by auto
  ultimately show ?thesis
    by (simp add: omits_session_headers_def)
qed

lemma login_returned_tokens: "returned (login net self) \<Longrightarrow> has_tokens (snd (login net self))"
  by (auto simp: login_cases has_tokens_def split: sum.splits if_splits)

lemma login_failed_tokens:
  "\<not> returned (login net self) \<Longrightarrow> \<not> has_tokens self \<Longrightarrow> \<not> has_tokens (snd (login net self))"
  by (auto simp: login_cases has_tokens_def split: sum.splits if_splits)

lemma perform_keeps_no_tokens:
  assumes "\<not> has_tokens self" and "\<not> (c = Login \<and> returned (perform net self c))"
  shows "\<not> has_tokens (snd (perform net self c))"
proof (cases "c = Login")
  case True
  with assms show ?thesis by (simp add: login_failed_tokens)
next
  case False
  then have "same_settings self (snd (perform net self c))" by (rule perform_settings)
  with assms(1) show ?thesis by (simp add: same_settings_def has_tokens_def)
qed

lemma run_snoc: "run self (tr @ [(c, net)]) = snd (perform net (run self tr) c)"
  by (induction tr arbitrary: self) auto

lemma run_before_login:
  assumes "\<not> has_tokens self" and "list_all omits_session_headers (session self)"
    and "no_login_succeeded self tr"
  shows "\<not> has_tokens (run self tr) \<and> list_all omits_session_headers (session (run self tr))"
  using assms
proof (induction tr arbitrary: self)
  case Nil
  then show ?case by simp
next
  case (Cons a tr)
  obtain c net where a: "a = (c, net)" by (cases a)
  let ?next = "snd (perform net self c)"
  from Cons.prems(3) have step: "\<not> (c = Login \<and> returned (perform net self c))"
    and rest: "no_login_succeeded ?next tr"
    by (simp_all add: a)
  have "\<not> has_tokens ?next"
    using Cons.prems(1) step by (rule perform_keeps_no_tokens)
  moreover have "list_all omits_session_headers (session ?next)"
    using Cons.prems(1,2) by (simp add: perform_session request_of_omits)
  ultimately show ?case
    using Cons.IH [of ?next] rest by (simp add: a)
qed

lemma init_no_tokens: "\<not> has_tokens (init cfg) \<and> session (init cfg) = []"
  by (simp add: init_def has_tokens_def)

lemma trace0_no_login: "no_login_succeeded (init cfg0) trace0"
  by (simp add: trace0_def list_positions_def returning_json_def send_def reply_answer
      login_cases raise_for_status_def empty_cst_def no_tokens_def)

text \<open>
  C7, as amended. Every call sends exactly one request, and that request carries the
  \<^verbatim>\<open>X-CAP-API-KEY\<close> header with the configured \<^verbatim>\<open>api_key\<close>. It carries the
  \<^verbatim>\<open>CST\<close> and \<^verbatim>\<open>X-SECURITY-TOKEN\<close> headers, with the stored values, exactly when
  both stored tokens are present and non-empty, which is the case right after a
  \<^verbatim>\<open>login\<close> that succeeded; otherwise it carries neither. On a client fresh from
  construction, every request made before a \<^verbatim>\<open>login\<close> has succeeded, the request of
  the first successful \<^verbatim>\<open>login\<close> among them, carries neither.
\<close>

theorem request_headers:
  "session (snd (perform net self c)) = session self @ [request_of self c]
   \<and> map_of (req_headers (request_of self c)) ''X-CAP-API-KEY'' = Some (api_key (config self))
   \<and> (if has_tokens self
       then map_of (req_headers (request_of self c)) ''CST'' = cst self
            \<and> map_of (req_headers (request_of self c)) ''X-SECURITY-TOKEN'' = security_token self
       else omits_session_headers (request_of self c))
   \<and> (returned (login net self) \<longrightarrow> has_tokens (snd (login net self)))
   \<and> (no_login_succeeded (init cfg) tr \<longrightarrow>
        list_all omits_session_headers (session (run (init cfg) (tr @ [(c, net)]))))"
proof -
  have "list_all omits_session_headers (session (run (init cfg) (tr @ [(c, net)])))"
    if "no_login_succeeded (init cfg) tr"
  proof -
    have "\<not> has_tokens (run (init cfg) tr)
        \<and> list_all omits_session_headers (session (run (init cfg) tr))"
      using that by (intro run_before_login) (simp_all add: init_no_tokens)
    then show ?thesis
      by (simp add: run_snoc perform_session request_of_omits)
  qed
  moreover have "has_tokens self \<Longrightarrow>
      map_of (req_headers (request_of self c)) ''CST'' = cst self
      \<and> map_of (req_headers (request_of self c)) ''X-SECURITY-TOKEN'' = security_token self"
    by (simp add: has_tokens_def request_of_headers p_headers_cst p_headers_security_token)
  ultimately show ?thesis
    by (simp add: perform_session request_of_headers p_headers_api_key request_of_omits
        login_returned_tokens)
qed

text \<open>
  The theorem on a client with tokens, and on a fresh client after a
  \<^verbatim>\<open>list_positions\<close> and a failed \<^verbatim>\<open>login\<close>: the three requests sent up to and
  with the first successful \<^verbatim>\<open>login\<close> carry no session header.
\<close>

theorem request_headers_witness:
  "has_tokens logged_in
   \<and> map_of (req_headers (request_of logged_in List_positions)) ''X-CAP-API-KEY'' = Some ''KEY''
   \<and> map_of (req_headers (request_of logged_in List_positions)) ''CST'' = Some ''c1''
   \<and> map_of (req_headers (request_of logged_in List_positions)) ''X-SECURITY-TOKEN'' = Some ''t1''
   \<and> returned (login (reply both_tokens) (init cfg0))
   \<and> has_tokens (snd (login (reply both_tokens) (init cfg0)))
   \<and> no_login_succeeded (init cfg0) trace0
   \<and> list_all omits_session_headers
        (session (run (init cfg0) (trace0 @ [(Login, reply both_tokens)])))
   \<and> length (session (run (init cfg0) (trace0 @ [(Login, reply both_tokens)]))) = 3"
proof -
  have a: "has_tokens logged_in" "api_key (config logged_in) = ''KEY''"
    "cst logged_in = Some ''c1''" "security_token logged_in = Some ''t1''"
    by (simp_all add: has_tokens_def logged_in_def init_def cfg0_def)
  have b: "returned (login (reply both_tokens) (init cfg0))"
    by (simp add: login_both_tokens)
  have c: "length (session (run self (trace0 @ [(Login, reply both_tokens)]))) =
      length (session self) + 3" for self
    by (simp add: trace0_def login_session list_positions_def returning_json_session)
  show ?thesis
    using request_headers [of "reply both_tokens" logged_in List_positions cfg0 "[]"]
      request_headers [of "reply both_tokens" "init cfg0" Login cfg0 trace0]
      a b trace0_no_login c [of "init cfg0"]
    by (simp add: init_no_tokens)
qed

text \<open>
  C7 as it is written fails on a stored empty token: after a \<^verbatim>\<open>login\<close> that succeeded
  and a second one answered with an empty \<^verbatim>\<open>CST\<close>, both tokens are stored, and the
  next request carries neither session header.
\<close>

theorem stored_empty_token_counterexample:
  "returned (login (reply both_tokens) (init cfg0))
   \<and> cst after_empty_cst = Some []
   \<and> security_token after_empty_cst = Some ''xyz''
   \<and> session (snd (list_positions (reply no_tokens) after_empty_cst)) =
       session after_empty_cst @ [list_positions_request after_empty_cst]
   \<and> map_of (req_headers (list_positions_request after_empty_cst)) ''CST'' = None
   \<and> map_of (req_headers (list_positions_request after_empty_cst)) ''X-SECURITY-TOKEN'' = None"
proof -
  have "cst after_empty_cst = Some []" "security_token after_empty_cst = Some ''xyz''"
    by (simp_all add: after_empty_cst_def login_cases reply_answer raise_for_status_def
        empty_cst_def)
  then show ?thesis
    by (simp add: login_both_tokens list_positions_def returning_json_session
        list_positions_request_def p_headers_cst p_headers_security_token)
qed

subsection \<open>C8: what the methods leave unchanged\<close>

text \<open>
  C8. Each of \<^verbatim>\<open>search_markets\<close>, \<^verbatim>\<open>create_position\<close>, \<^verbatim>\<open>confirm\<close>,
  \<^verbatim>\<open>list_positions\<close>, \<^verbatim>\<open>close_position\<close>, \<^verbatim>\<open>create_working_order\<close> and
  \<^verbatim>\<open>delete_working_order\<close> leaves \<^verbatim>\<open>cst\<close>, \<^verbatim>\<open>security_token\<close>, \<^verbatim>\<open>config\<close> and
  \<^verbatim>\<open>base_url\<close> as they were, whether it returns or raises; \<^verbatim>\<open>login\<close> leaves
  \<^verbatim>\<open>config\<close> and \<^verbatim>\<open>base_url\<close> as they were; and after any sequence of calls on a
  constructed client \<^verbatim>\<open>config\<close> and \<^verbatim>\<open>base_url\<close> are those of the construction.
\<close>

theorem only_login_writes_tokens:
  "same_settings self (snd (search_markets net self t))
   \<and> same_settings self (snd (create_position net self e d s sl pl g ts))
   \<and> same_settings self (snd (confirm net self ref))
   \<and> same_settings self (snd (list_positions net self))
   \<and> same_settings self (snd (close_position net self i))
   \<and> same_settings self (snd (create_working_order net self e d ot s l tif sl pl))
   \<and> same_settings self (snd (delete_working_order net self i))
   \<and> config (snd (login net self)) = config self
   \<and> base_url (snd (login net self)) = base_url self
   \<and> config (run (init cfg) tr) = cfg
   \<and> base_url (run (init cfg) tr) = base_url (init cfg)"
  by (simp add: search_markets_settings create_position_settings create_working_order_settings
      returning_json_settings confirm_def list_positions_def close_position_def
      delete_working_order_def login_config run_config)
    (simp add: init_def)

subsection \<open>C9: the two deleting requests\<close>

text \<open>
  C9. \<^verbatim>\<open>close_position(deal_id)\<close> issues exactly one request, a \<^verbatim>\<open>DELETE\<close> to the
  base URL followed by \<^verbatim>\<open>/api/v1/positions/\<close> and the given id;
  \<^verbatim>\<open>delete_working_order(deal_id)\<close> issues exactly one request, a \<^verbatim>\<open>DELETE\<close> to the
  base URL followed by \<^verbatim>\<open>/api/v1/workingorders/\<close> and the given id.
\<close>

theorem delete_requests:
  "session (snd (close_position net self deal_id)) =
     session self @
       [\<lparr>req_method = DELETE,
         req_url = base_url self @ ''/api/v1/positions/'' @ deal_id,
         req_headers = p_headers self,
         req_params = [],
         req_json = None,
         req_timeout = 15\<rparr>]
   \<and> session (snd (delete_working_order net self deal_id)) =
     session self @
       [\<lparr>req_method = DELETE,
         req_url = base_url self @ ''/api/v1/workingorders/'' @ deal_id,
         req_headers = p_headers self,
         req_params = [],
         req_json = None,
         req_timeout = 15\<rparr>]"
  by (simp add: close_position_def delete_working_order_def returning_json_session
      close_position_request_def delete_working_order_request_def)

subsection \<open>C10: login over a 2xx answer overwrites the tokens\<close>

text \<open>
  C10. After a \<^verbatim>\<open>login\<close> answered with a 2xx status, the stored \<^verbatim>\<open>cst\<close> and
  \<^verbatim>\<open>security_token\<close> are what the answer holds under \<^verbatim>\<open>CST\<close> and
  \<^verbatim>\<open>X-SECURITY-TOKEN\<close>, absent where a header is missing, also when \<^verbatim>\<open>login\<close> then
  raises; whatever tokens an earlier \<^verbatim>\<open>login\<close> had stored are gone, and after such a
  failure the client sends the API key header alone.
\<close>

theorem login_overwrites_tokens:
  assumes "net (login_request self) = Inr r" and "200 \<le> status_code r" and "status_code r < 300"
  shows "cst (snd (login net self)) = headers r ''CST''
       \<and> security_token (snd (login net self)) = headers r ''X-SECURITY-TOKEN''
       \<and> (\<not> returned (login net self) \<longrightarrow>
            p_headers (snd (login net self)) = [(''X-CAP-API-KEY'', api_key (config self))])"
proof -
  from assms(2,3) have ok: "raise_for_status r = Inr ()"
    by (simp add: raise_for_status_def)
  show ?thesis
    unfolding login_after_status [of net self r, OF assms(1) ok]
    by (simp add: p_headers_cases)
qed

text \<open>
  The theorem on a client that had logged in, answered with status 200 and no tokens.
\<close>

theorem login_overwrites_tokens_witness:
  "reply no_tokens (login_request logged_in) = Inr no_tokens
   \<and> 200 \<le> status_code no_tokens \<and> status_code no_tokens < 300
   \<and> cst logged_in = Some ''c1''
   \<and> security_token logged_in = Some ''t1''
   \<and> \<not> returned (login (reply no_tokens) logged_in)
   \<and> cst (snd (login (reply no_tokens) logged_in)) = None
   \<and> security_token (snd (login (reply no_tokens) logged_in)) = None
   \<and> p_headers (snd (login (reply no_tokens) logged_in)) = [(''X-CAP-API-KEY'', ''KEY'')]"
proof -
  have a: "reply no_tokens (login_request logged_in) = Inr no_tokens"
    by (rule reply_answer)
  have b: "200 \<le> status_code no_tokens" "status_code no_tokens < 300"
    "headers no_tokens ''CST'' = None" "headers no_tokens ''X-SECURITY-TOKEN'' = None"
    by (simp_all add: no_tokens_def)
  have c: "cst logged_in = Some ''c1''" "security_token logged_in = Some ''t1''"
    "api_key (config logged_in) = ''KEY''"
    by (simp_all add: logged_in_def init_def cfg0_def)
  have d: "\<not> returned (login (reply no_tokens) logged_in)"
    by (simp add: login_cases reply_answer raise_for_status_def no_tokens_def)
  show ?thesis
    using login_overwrites_tokens [of "reply no_tokens" logged_in no_tokens, OF a b(1,2)]
      a b c d
    by simp
qed

end
